theory Spec2Isabelle
  imports Main
begin

section \<open>The macro namespace\<close>

text \<open>
  \<^verbatim>\<open>runtime/mercury_conf_param.h\<close> consists of preprocessor directives only. Its
  meaning is a function on the table of macros that are defined when the header is
  reached: the macros given on the command line with \<^verbatim>\<open>-D\<close>, those set by autoconf
  in \<^verbatim>\<open>mercury_conf.h\<close>, and those the compiler predefines (\<^verbatim>\<open>__pic__\<close>,
  \<^verbatim>\<open>_WIN32\<close>, ...). All of them live in the one namespace of the preprocessor, so the
  initial assignment and the platform facts of a resolution are one table here.

  A macro is named by its identifier. Its value is its replacement list: empty
  (\<^verbatim>\<open>#define X\<close>), an integer (\<^verbatim>\<open>#define X 1\<close>, \<^verbatim>\<open>-DX\<close>) or a string literal
  (the file names that \<^verbatim>\<open>MR_TYPE_CTOR_STATS\<close> and \<^verbatim>\<open>MR_STACK_FRAME_STATS\<close> take).
\<close>

type_synonym macro = string

datatype mval = Empty | Num int | Str string

type_synonym store = "macro \<rightharpoonup> mval"

text \<open>
  \<^verbatim>\<open>defined(X)\<close>, the replacement list of \<^verbatim>\<open>X\<close>, \<^verbatim>\<open>#define X v\<close> and
  \<^verbatim>\<open>#undef X\<close>.
\<close>

definition defined :: "store \<Rightarrow> macro \<Rightarrow> bool" where
  "defined s m \<longleftrightarrow> s m \<noteq> None"

definition lookup :: "store \<Rightarrow> macro \<Rightarrow> mval option" where
  "lookup s m = s m"

definition cpp_define :: "macro \<Rightarrow> mval \<Rightarrow> store \<Rightarrow> store" where
  "cpp_define m v s = s(m \<mapsto> v)"

definition cpp_undef :: "macro \<Rightarrow> store \<Rightarrow> store" where
  "cpp_undef m s = s(m := None)"

text \<open>A run of \<^verbatim>\<open>#define X\<close> lines, and a run of \<^verbatim>\<open>#undef X\<close> lines, top to bottom.\<close>

definition cpp_defines :: "macro list \<Rightarrow> store \<Rightarrow> store" where
  "cpp_defines ms s = fold (\<lambda>m. cpp_define m Empty) ms s"

definition cpp_undefs :: "macro list \<Rightarrow> store \<Rightarrow> store" where
  "cpp_undefs ms s = fold cpp_undef ms s"

section \<open>The macros of the header\<close>

text \<open>
  The macros that the header tests, defines or undefines, each by its name. The
  identifiers that the compiler predefines start with an underscore; their constants
  are written with the prefix \<open>cc_\<close>.
\<close>

definition MERCURY_CONF_PARAM_H :: macro where
  "MERCURY_CONF_PARAM_H = ''MERCURY_CONF_PARAM_H''"

definition MR_STACK_TRACE :: macro where
  "MR_STACK_TRACE = ''MR_STACK_TRACE''"

definition MR_EXEC_TRACE :: macro where
  "MR_EXEC_TRACE = ''MR_EXEC_TRACE''"

definition MR_DEEP_PROFILING :: macro where
  "MR_DEEP_PROFILING = ''MR_DEEP_PROFILING''"

definition MR_HIGHLEVEL_CODE :: macro where
  "MR_HIGHLEVEL_CODE = ''MR_HIGHLEVEL_CODE''"

definition MR_LOWLEVEL_DEBUG :: macro where
  "MR_LOWLEVEL_DEBUG = ''MR_LOWLEVEL_DEBUG''"

definition MR_DEBUG_DD_BACK_END :: macro where
  "MR_DEBUG_DD_BACK_END = ''MR_DEBUG_DD_BACK_END''"

definition MR_DEBUG_GOTOS :: macro where
  "MR_DEBUG_GOTOS = ''MR_DEBUG_GOTOS''"

definition MR_DEBUG_LABEL_NAMES :: macro where
  "MR_DEBUG_LABEL_NAMES = ''MR_DEBUG_LABEL_NAMES''"

definition MR_LOWLEVEL_ADDR_DEBUG :: macro where
  "MR_LOWLEVEL_ADDR_DEBUG = ''MR_LOWLEVEL_ADDR_DEBUG''"

definition MR_DEBUG_LVAL_REP :: macro where
  "MR_DEBUG_LVAL_REP = ''MR_DEBUG_LVAL_REP''"

definition MR_DEBUG_AGC_SCHEDULING :: macro where
  "MR_DEBUG_AGC_SCHEDULING = ''MR_DEBUG_AGC_SCHEDULING''"

definition MR_DEBUG_AGC_COLLECTION :: macro where
  "MR_DEBUG_AGC_COLLECTION = ''MR_DEBUG_AGC_COLLECTION''"

definition MR_DEBUG_AGC_FORWARDING :: macro where
  "MR_DEBUG_AGC_FORWARDING = ''MR_DEBUG_AGC_FORWARDING''"

definition MR_DEBUG_AGC_SAVED_HPS :: macro where
  "MR_DEBUG_AGC_SAVED_HPS = ''MR_DEBUG_AGC_SAVED_HPS''"

definition MR_DEBUG_AGC_PRINT_VARS :: macro where
  "MR_DEBUG_AGC_PRINT_VARS = ''MR_DEBUG_AGC_PRINT_VARS''"

definition MR_DEBUG_AGC_SMALL_HEAP :: macro where
  "MR_DEBUG_AGC_SMALL_HEAP = ''MR_DEBUG_AGC_SMALL_HEAP''"

definition MR_RECORD_TERM_SIZES :: macro where
  "MR_RECORD_TERM_SIZES = ''MR_RECORD_TERM_SIZES''"

definition MR_THREAD_SAFE :: macro where
  "MR_THREAD_SAFE = ''MR_THREAD_SAFE''"

definition MR_TRACE_HISTOGRAM :: macro where
  "MR_TRACE_HISTOGRAM = ''MR_TRACE_HISTOGRAM''"

definition MR_TYPE_CTOR_STATS :: macro where
  "MR_TYPE_CTOR_STATS = ''MR_TYPE_CTOR_STATS''"

definition MR_TABLE_STATISTICS :: macro where
  "MR_TABLE_STATISTICS = ''MR_TABLE_STATISTICS''"

definition MR_STACK_FRAME_STATS :: macro where
  "MR_STACK_FRAME_STATS = ''MR_STACK_FRAME_STATS''"

definition MR_USE_MINIMAL_MODEL_STACK_COPY :: macro where
  "MR_USE_MINIMAL_MODEL_STACK_COPY = ''MR_USE_MINIMAL_MODEL_STACK_COPY''"

definition MR_CONSERVATIVE_GC :: macro where
  "MR_CONSERVATIVE_GC = ''MR_CONSERVATIVE_GC''"

definition MR_USE_MINIMAL_MODEL_OWN_STACKS :: macro where
  "MR_USE_MINIMAL_MODEL_OWN_STACKS = ''MR_USE_MINIMAL_MODEL_OWN_STACKS''"

definition MR_EXEC_TRACE_INFO_IN_CONTEXT :: macro where
  "MR_EXEC_TRACE_INFO_IN_CONTEXT = ''MR_EXEC_TRACE_INFO_IN_CONTEXT''"

definition MR_MINIMAL_MODEL_DEBUG :: macro where
  "MR_MINIMAL_MODEL_DEBUG = ''MR_MINIMAL_MODEL_DEBUG''"

definition MR_BOXED_FLOAT :: macro where
  "MR_BOXED_FLOAT = ''MR_BOXED_FLOAT''"

definition cc_pic :: macro where
  "cc_pic = ''__pic__''"

definition cc_PIC :: macro where
  "cc_PIC = ''__PIC__''"

definition MR_PIC :: macro where
  "MR_PIC = ''MR_PIC''"

definition MR_PIC_REG :: macro where
  "MR_PIC_REG = ''MR_PIC_REG''"

definition cc_CYGWIN :: macro where
  "cc_CYGWIN = ''__CYGWIN__''"

definition cc_WIN32 :: macro where
  "cc_WIN32 = ''_WIN32''"

definition MR_CHECK_FOR_OVERFLOW :: macro where
  "MR_CHECK_FOR_OVERFLOW = ''MR_CHECK_FOR_OVERFLOW''"

definition MR_DEEP_PROFILING_PORT_COUNTS :: macro where
  "MR_DEEP_PROFILING_PORT_COUNTS = ''MR_DEEP_PROFILING_PORT_COUNTS''"

definition MR_DEEP_PROFILING_PERF_TEST :: macro where
  "MR_DEEP_PROFILING_PERF_TEST = ''MR_DEEP_PROFILING_PERF_TEST''"

definition MR_DEEP_PROFILING_TIMING :: macro where
  "MR_DEEP_PROFILING_TIMING = ''MR_DEEP_PROFILING_TIMING''"

definition MR_DEEP_PROFILING_CALL_SEQ :: macro where
  "MR_DEEP_PROFILING_CALL_SEQ = ''MR_DEEP_PROFILING_CALL_SEQ''"

definition MR_DEEP_PROFILING_MEMORY :: macro where
  "MR_DEEP_PROFILING_MEMORY = ''MR_DEEP_PROFILING_MEMORY''"

definition MR_DISABLE_CHECK_DU_EQ :: macro where
  "MR_DISABLE_CHECK_DU_EQ = ''MR_DISABLE_CHECK_DU_EQ''"

definition MR_CHECK_DU_EQ :: macro where
  "MR_CHECK_DU_EQ = ''MR_CHECK_DU_EQ''"

definition MR_BOEHM_GC :: macro where
  "MR_BOEHM_GC = ''MR_BOEHM_GC''"

definition MR_MPS_GC :: macro where
  "MR_MPS_GC = ''MR_MPS_GC''"

definition MR_NATIVE_GC :: macro where
  "MR_NATIVE_GC = ''MR_NATIVE_GC''"

definition MR_MIGHT_RECLAIM_HP_ON_FAILURE :: macro where
  "MR_MIGHT_RECLAIM_HP_ON_FAILURE = ''MR_MIGHT_RECLAIM_HP_ON_FAILURE''"

definition MR_RECLAIM_HP_ON_FAILURE :: macro where
  "MR_RECLAIM_HP_ON_FAILURE = ''MR_RECLAIM_HP_ON_FAILURE''"

definition MR_STATIC_CODE_ADDRESSES :: macro where
  "MR_STATIC_CODE_ADDRESSES = ''MR_STATIC_CODE_ADDRESSES''"

definition MR_USE_GCC_NONLOCAL_GOTOS :: macro where
  "MR_USE_GCC_NONLOCAL_GOTOS = ''MR_USE_GCC_NONLOCAL_GOTOS''"

definition MR_USE_ASM_LABELS :: macro where
  "MR_USE_ASM_LABELS = ''MR_USE_ASM_LABELS''"

definition MR_LL_PARALLEL_CONJ :: macro where
  "MR_LL_PARALLEL_CONJ = ''MR_LL_PARALLEL_CONJ''"

definition MR_DEEP_PROFILING_LOWLEVEL_DEBUG :: macro where
  "MR_DEEP_PROFILING_LOWLEVEL_DEBUG = ''MR_DEEP_PROFILING_LOWLEVEL_DEBUG''"

definition MR_TABLE_DEBUG :: macro where
  "MR_TABLE_DEBUG = ''MR_TABLE_DEBUG''"

definition MR_DEBUG_RETRY :: macro where
  "MR_DEBUG_RETRY = ''MR_DEBUG_RETRY''"

definition MR_INSERT_LABELS :: macro where
  "MR_INSERT_LABELS = ''MR_INSERT_LABELS''"

definition MR_BYTECODE_CALLABLE :: macro where
  "MR_BYTECODE_CALLABLE = ''MR_BYTECODE_CALLABLE''"

definition MR_INSERT_ENTRY_LABEL_NAMES :: macro where
  "MR_INSERT_ENTRY_LABEL_NAMES = ''MR_INSERT_ENTRY_LABEL_NAMES''"

definition MR_MPROF_PROFILE_CALLS :: macro where
  "MR_MPROF_PROFILE_CALLS = ''MR_MPROF_PROFILE_CALLS''"

definition MR_INSERT_INTERNAL_LABEL_NAMES :: macro where
  "MR_INSERT_INTERNAL_LABEL_NAMES = ''MR_INSERT_INTERNAL_LABEL_NAMES''"

definition MR_NEED_ENTRY_LABEL_ARRAY :: macro where
  "MR_NEED_ENTRY_LABEL_ARRAY = ''MR_NEED_ENTRY_LABEL_ARRAY''"

definition MR_NEED_ENTRY_LABEL_INFO :: macro where
  "MR_NEED_ENTRY_LABEL_INFO = ''MR_NEED_ENTRY_LABEL_INFO''"

definition MR_NEED_INITIALIZATION_AT_START :: macro where
  "MR_NEED_INITIALIZATION_AT_START = ''MR_NEED_INITIALIZATION_AT_START''"

definition MR_MPROF_PROFILE_TIME :: macro where
  "MR_MPROF_PROFILE_TIME = ''MR_MPROF_PROFILE_TIME''"

definition MR_MAY_NEED_INITIALIZATION :: macro where
  "MR_MAY_NEED_INITIALIZATION = ''MR_MAY_NEED_INITIALIZATION''"

definition MR_HAVE_SIGINFO :: macro where
  "MR_HAVE_SIGINFO = ''MR_HAVE_SIGINFO''"

definition MR_PC_ACCESS :: macro where
  "MR_PC_ACCESS = ''MR_PC_ACCESS''"

definition MR_CAN_GET_PC_AT_SIGNAL :: macro where
  "MR_CAN_GET_PC_AT_SIGNAL = ''MR_CAN_GET_PC_AT_SIGNAL''"

definition MR_HAVE_MPROTECT :: macro where
  "MR_HAVE_MPROTECT = ''MR_HAVE_MPROTECT''"

definition MR_CHECK_OVERFLOW_VIA_MPROTECT :: macro where
  "MR_CHECK_OVERFLOW_VIA_MPROTECT = ''MR_CHECK_OVERFLOW_VIA_MPROTECT''"

definition MR_PROTECTPAGE :: macro where
  "MR_PROTECTPAGE = ''MR_PROTECTPAGE''"

definition cc_MSC_VER :: macro where
  "cc_MSC_VER = ''_MSC_VER''"

definition MR_MSVC_STRUCTURED_EXCEPTIONS :: macro where
  "MR_MSVC_STRUCTURED_EXCEPTIONS = ''MR_MSVC_STRUCTURED_EXCEPTIONS''"

definition MR_WIN32 :: macro where
  "MR_WIN32 = ''MR_WIN32''"

definition MR_WIN32_GETSYSTEMINFO :: macro where
  "MR_WIN32_GETSYSTEMINFO = ''MR_WIN32_GETSYSTEMINFO''"

definition MR_WIN32_VIRTUAL_ALLOC :: macro where
  "MR_WIN32_VIRTUAL_ALLOC = ''MR_WIN32_VIRTUAL_ALLOC''"

definition MR_WIN32_GETPROCESSTIMES :: macro where
  "MR_WIN32_GETPROCESSTIMES = ''MR_WIN32_GETPROCESSTIMES''"

definition MR_BROKEN_ST_INO :: macro where
  "MR_BROKEN_ST_INO = ''MR_BROKEN_ST_INO''"

definition cc_APPLE :: macro where
  "cc_APPLE = ''__APPLE__''"

definition cc_MACH :: macro where
  "cc_MACH = ''__MACH__''"

definition MR_MAC_OSX :: macro where
  "MR_MAC_OSX = ''MR_MAC_OSX''"

definition MR_DEBUG_AGC_ALL :: macro where
  "MR_DEBUG_AGC_ALL = ''MR_DEBUG_AGC_ALL''"

text \<open>
  A number for each name, computed from its characters. Two names with different
  numbers are different, which settles the comparison of two of the names above
  without going through their characters.
\<close>

definition name_code :: "macro \<Rightarrow> nat" where
  "name_code m = foldl (\<lambda>h c. (h * 31 + of_char c) mod 1000003) 0 m"

section \<open>Errors\<close>

text \<open>
  Every \<^verbatim>\<open>#error\<close> of the header stops the translation; it is a value here, carrying
  the macros that its message names:
  \<^item> ``\<^verbatim>\<open>X set independently\<close>'' and ``\<^verbatim>\<open>X should not be defined on the command line\<close>''
    are \<open>ReservedFlagSetExternally X\<close>;
  \<^item> ``\<^verbatim>\<open>A and B are not supported together\<close>'' and ``\<^verbatim>\<open>A and B both defined\<close>''
    are \<open>IncompatibleCombination [A, B]\<close>;
  \<^item> ``\<^verbatim>\<open>A requires B\<close>'' and ``\<^verbatim>\<open>A && ! B\<close>'' are \<open>MissingPrerequisite A B\<close>.

  \<open>InvalidIfExpression X\<close> is the preprocessor's own error for \<^verbatim>\<open>#if X\<close> when the
  replacement list of \<open>X\<close> is not an integer expression.
\<close>

datatype config_error =
    ReservedFlagSetExternally macro
  | IncompatibleCombination "macro list"
  | MissingPrerequisite macro macro
  | InvalidIfExpression macro

section \<open>Directive groups\<close>

text \<open>
  The top-level directive groups of this header come in three shapes: a group that only
  tests and may stop with \<^verbatim>\<open>#error\<close>, a group that only defines or undefines, and
  the one group headed by \<^verbatim>\<open>#if X\<close>, which evaluates the value of a macro. A group
  maps the macro table to an error or to the new table.

  For \<^verbatim>\<open>#if X\<close>, an identifier that is not a macro counts as 0, an integer is true
  when it is not 0, and any other replacement list is not an expression.
\<close>

datatype rule =
    Check "store \<Rightarrow> config_error option"
  | Always "store \<Rightarrow> store"
  | IfValue macro "store \<Rightarrow> store"

fun apply_rule :: "rule \<Rightarrow> store \<Rightarrow> config_error + store" where
  "apply_rule (Check c) s = (case c s of Some e \<Rightarrow> Inl e | None \<Rightarrow> Inr s)"
| "apply_rule (Always f) s = Inr (f s)"
| "apply_rule (IfValue m f) s =
     (case lookup s m of
        None \<Rightarrow> Inr s
      | Some (Num n) \<Rightarrow> Inr (if n \<noteq> 0 then f s else s)
      | Some Empty \<Rightarrow> Inl (InvalidIfExpression m)
      | Some (Str t) \<Rightarrow> Inl (InvalidIfExpression m))"

text \<open>The groups are processed in file order; the first error ends the run.\<close>

fun run :: "rule list \<Rightarrow> store \<Rightarrow> config_error + store" where
  "run [] s = Inr s"
| "run (r # rs) s = (case apply_rule r s of Inl e \<Rightarrow> Inl e | Inr s' \<Rightarrow> run rs s')"

section \<open>The header, group by group\<close>

subsection \<open>Parameters that can be set on the command line (lines 33--535)\<close>

text \<open>Lines 342--344 and 345--347.\<close>

definition chk_stack_trace :: "store \<Rightarrow> config_error option" where
  "chk_stack_trace s =
     (if defined s MR_STACK_TRACE
      then Some (ReservedFlagSetExternally MR_STACK_TRACE) else None)"

definition def_stack_trace :: "store \<Rightarrow> store" where
  "def_stack_trace s =
     (if defined s MR_EXEC_TRACE \<or> defined s MR_DEEP_PROFILING
      then cpp_define MR_STACK_TRACE Empty s else s)"

text \<open>Lines 349--368.\<close>

definition chk_highlevel_code_debug :: "store \<Rightarrow> config_error option" where
  "chk_highlevel_code_debug s =
     (if defined s MR_HIGHLEVEL_CODE then
        if defined s MR_LOWLEVEL_DEBUG
          then Some (IncompatibleCombination [MR_HIGHLEVEL_CODE, MR_LOWLEVEL_DEBUG])
        else if defined s MR_DEBUG_DD_BACK_END
          then Some (IncompatibleCombination [MR_HIGHLEVEL_CODE, MR_DEBUG_DD_BACK_END])
        else if defined s MR_DEBUG_GOTOS
          then Some (IncompatibleCombination [MR_HIGHLEVEL_CODE, MR_DEBUG_GOTOS])
        else if defined s MR_DEBUG_LABEL_NAMES
          then Some (IncompatibleCombination [MR_HIGHLEVEL_CODE, MR_DEBUG_LABEL_NAMES])
        else if defined s MR_LOWLEVEL_ADDR_DEBUG
          then Some (IncompatibleCombination [MR_HIGHLEVEL_CODE, MR_LOWLEVEL_ADDR_DEBUG])
        else if defined s MR_DEBUG_LVAL_REP
          then Some (IncompatibleCombination [MR_HIGHLEVEL_CODE, MR_DEBUG_LVAL_REP])
        else None
      else None)"

text \<open>Lines 370--377, the body of \<^verbatim>\<open>#if MR_DEBUG_AGC_ALL\<close>.\<close>

definition def_debug_agc_all :: "store \<Rightarrow> store" where
  "def_debug_agc_all s =
     cpp_defines [MR_DEBUG_AGC_SCHEDULING, MR_DEBUG_AGC_COLLECTION,
                  MR_DEBUG_AGC_FORWARDING, MR_DEBUG_AGC_SAVED_HPS,
                  MR_DEBUG_AGC_PRINT_VARS, MR_DEBUG_AGC_SMALL_HEAP] s"

text \<open>Lines 438--449.\<close>

definition chk_highlevel_code_profiling :: "store \<Rightarrow> config_error option" where
  "chk_highlevel_code_profiling s =
     (if defined s MR_HIGHLEVEL_CODE then
        if defined s MR_DEEP_PROFILING
          then Some (IncompatibleCombination [MR_HIGHLEVEL_CODE, MR_DEEP_PROFILING])
        else if defined s MR_RECORD_TERM_SIZES
          then Some (IncompatibleCombination [MR_HIGHLEVEL_CODE, MR_RECORD_TERM_SIZES])
        else None
      else None)"

text \<open>Lines 490--492, 494--496, 498--500 and 502--504.\<close>

definition chk_thread_safe_trace_histogram :: "store \<Rightarrow> config_error option" where
  "chk_thread_safe_trace_histogram s =
     (if defined s MR_THREAD_SAFE \<and> defined s MR_TRACE_HISTOGRAM
      then Some (IncompatibleCombination [MR_THREAD_SAFE, MR_TRACE_HISTOGRAM])
      else None)"

definition chk_thread_safe_type_ctor_stats :: "store \<Rightarrow> config_error option" where
  "chk_thread_safe_type_ctor_stats s =
     (if defined s MR_THREAD_SAFE \<and> defined s MR_TYPE_CTOR_STATS
      then Some (IncompatibleCombination [MR_THREAD_SAFE, MR_TYPE_CTOR_STATS])
      else None)"

definition chk_thread_safe_table_statistics :: "store \<Rightarrow> config_error option" where
  "chk_thread_safe_table_statistics s =
     (if defined s MR_THREAD_SAFE \<and> defined s MR_TABLE_STATISTICS
      then Some (IncompatibleCombination [MR_THREAD_SAFE, MR_TABLE_STATISTICS])
      else None)"

definition chk_thread_safe_stack_frame_stats :: "store \<Rightarrow> config_error option" where
  "chk_thread_safe_stack_frame_stats s =
     (if defined s MR_THREAD_SAFE \<and> defined s MR_STACK_FRAME_STATS
      then Some (IncompatibleCombination [MR_THREAD_SAFE, MR_STACK_FRAME_STATS])
      else None)"

text \<open>
  Lines 514--516 and 518--520. The message of line 515 names
  \<^verbatim>\<open>MR_USE_MINIMAL_MODEL_OWN_STACKS\<close>, although its condition tests
  \<^verbatim>\<open>MR_USE_MINIMAL_MODEL_STACK_COPY\<close>.
\<close>

definition chk_minimal_model_stack_copy :: "store \<Rightarrow> config_error option" where
  "chk_minimal_model_stack_copy s =
     (if defined s MR_USE_MINIMAL_MODEL_STACK_COPY \<and> \<not> defined s MR_CONSERVATIVE_GC
      then Some (MissingPrerequisite MR_USE_MINIMAL_MODEL_OWN_STACKS MR_CONSERVATIVE_GC)
      else None)"

definition chk_minimal_model_own_stacks :: "store \<Rightarrow> config_error option" where
  "chk_minimal_model_own_stacks s =
     (if defined s MR_USE_MINIMAL_MODEL_OWN_STACKS \<and> \<not> defined s MR_CONSERVATIVE_GC
      then Some (MissingPrerequisite MR_USE_MINIMAL_MODEL_OWN_STACKS MR_CONSERVATIVE_GC)
      else None)"

text \<open>Lines 529--531 and 533--535.\<close>

definition def_exec_trace_info_in_context :: "store \<Rightarrow> store" where
  "def_exec_trace_info_in_context s =
     (if defined s MR_USE_MINIMAL_MODEL_OWN_STACKS
      then cpp_define MR_EXEC_TRACE_INFO_IN_CONTEXT Empty s else s)"

definition def_table_statistics :: "store \<Rightarrow> store" where
  "def_table_statistics s =
     (if defined s MR_MINIMAL_MODEL_DEBUG
      then cpp_define MR_TABLE_STATISTICS Empty s else s)"

subsection \<open>Parameters that are also implied by other parameters (lines 537--618)\<close>

text \<open>Lines 548--550 and 556--558.\<close>

definition def_boxed_float :: "store \<Rightarrow> store" where
  "def_boxed_float s =
     (if defined s MR_HIGHLEVEL_CODE then cpp_define MR_BOXED_FLOAT (Num 1) s else s)"

definition def_pic :: "store \<Rightarrow> store" where
  "def_pic s =
     (if defined s cc_pic \<or> defined s cc_PIC
      then cpp_define MR_PIC (Num 1) s else s)"

text \<open>Lines 574--576 and 577--579.\<close>

definition def_pic_reg :: "store \<Rightarrow> store" where
  "def_pic_reg s =
     (if defined s MR_PIC then cpp_define MR_PIC_REG (Num 1) s else s)"

definition undef_pic_reg :: "store \<Rightarrow> store" where
  "undef_pic_reg s =
     (if defined s cc_CYGWIN \<or> defined s cc_WIN32
      then cpp_undef MR_PIC_REG s else s)"

text \<open>Lines 582--585.\<close>

definition def_lowlevel_debug :: "store \<Rightarrow> store" where
  "def_lowlevel_debug s =
     (if defined s MR_LOWLEVEL_DEBUG
      then cpp_defines [MR_DEBUG_GOTOS, MR_CHECK_FOR_OVERFLOW] s else s)"

text \<open>Lines 601--614.\<close>

definition def_deep_profiling :: "store \<Rightarrow> store" where
  "def_deep_profiling s =
     (if defined s MR_DEEP_PROFILING then
        let s1 = cpp_define MR_DEEP_PROFILING_PORT_COUNTS Empty s in
        if \<not> defined s1 MR_DEEP_PROFILING_PERF_TEST
        then cpp_defines [MR_DEEP_PROFILING_TIMING, MR_DEEP_PROFILING_CALL_SEQ,
                      MR_DEEP_PROFILING_MEMORY] s1
        else s1
      else
        cpp_undefs [MR_DEEP_PROFILING_PORT_COUNTS, MR_DEEP_PROFILING_TIMING,
                MR_DEEP_PROFILING_CALL_SEQ, MR_DEEP_PROFILING_MEMORY] s)"

text \<open>Lines 616--618.\<close>

definition def_check_du_eq :: "store \<Rightarrow> store" where
  "def_check_du_eq s =
     (if \<not> defined s MR_DISABLE_CHECK_DU_EQ then cpp_define MR_CHECK_DU_EQ Empty s else s)"

subsection \<open>Parameters determined by other parameters (lines 620--847)\<close>

text \<open>Lines 640--646.\<close>

definition def_conservative_gc :: "store \<Rightarrow> store" where
  "def_conservative_gc s =
     (if defined s MR_BOEHM_GC \<or> defined s MR_MPS_GC then
        if \<not> defined s MR_CONSERVATIVE_GC
        then cpp_define MR_CONSERVATIVE_GC Empty s else s
      else if defined s MR_CONSERVATIVE_GC then cpp_define MR_BOEHM_GC Empty s
      else s)"

text \<open>Lines 657--659 and 675--677.\<close>

definition def_might_reclaim_hp_on_failure :: "store \<Rightarrow> store" where
  "def_might_reclaim_hp_on_failure s =
     (if \<not> defined s MR_CONSERVATIVE_GC \<and> \<not> defined s MR_NATIVE_GC
      then cpp_define MR_MIGHT_RECLAIM_HP_ON_FAILURE Empty s else s)"

definition def_reclaim_hp_on_failure :: "store \<Rightarrow> store" where
  "def_reclaim_hp_on_failure s =
     (if defined s MR_MIGHT_RECLAIM_HP_ON_FAILURE
      then cpp_define MR_RECLAIM_HP_ON_FAILURE Empty s else s)"

text \<open>Lines 680--699, ``some sanity checking''.\<close>

definition chk_reclaim_hp_on_failure :: "store \<Rightarrow> config_error option" where
  "chk_reclaim_hp_on_failure s =
     (if defined s MR_RECLAIM_HP_ON_FAILURE then
        if \<not> defined s MR_MIGHT_RECLAIM_HP_ON_FAILURE
          then Some (MissingPrerequisite MR_RECLAIM_HP_ON_FAILURE
                       MR_MIGHT_RECLAIM_HP_ON_FAILURE)
        else if defined s MR_CONSERVATIVE_GC
          then Some (IncompatibleCombination [MR_RECLAIM_HP_ON_FAILURE, MR_CONSERVATIVE_GC])
        else if defined s MR_NATIVE_GC
          then Some (IncompatibleCombination [MR_RECLAIM_HP_ON_FAILURE, MR_NATIVE_GC])
        else None
      else None)"

text \<open>Lines 706--708 and 709--711.\<close>

definition chk_static_code_addresses :: "store \<Rightarrow> config_error option" where
  "chk_static_code_addresses s =
     (if defined s MR_STATIC_CODE_ADDRESSES
      then Some (ReservedFlagSetExternally MR_STATIC_CODE_ADDRESSES) else None)"

definition def_static_code_addresses :: "store \<Rightarrow> store" where
  "def_static_code_addresses s =
     (if \<not> defined s MR_USE_GCC_NONLOCAL_GOTOS \<or> defined s MR_USE_ASM_LABELS
      then cpp_define MR_STATIC_CODE_ADDRESSES Empty s else s)"

text \<open>Lines 717--719 and 729--732.\<close>

definition def_ll_parallel_conj :: "store \<Rightarrow> store" where
  "def_ll_parallel_conj s =
     (if \<not> defined s MR_HIGHLEVEL_CODE \<and> defined s MR_THREAD_SAFE
      then cpp_define MR_LL_PARALLEL_CONJ Empty s else s)"

definition def_debug_label_names :: "store \<Rightarrow> store" where
  "def_debug_label_names s =
     (if defined s MR_DEEP_PROFILING_LOWLEVEL_DEBUG \<or> defined s MR_TABLE_DEBUG
         \<or> defined s MR_DEBUG_RETRY
      then cpp_define MR_DEBUG_LABEL_NAMES Empty s else s)"

text \<open>Lines 748--750 and 751--755.\<close>

definition chk_insert_labels :: "store \<Rightarrow> config_error option" where
  "chk_insert_labels s =
     (if defined s MR_INSERT_LABELS
      then Some (ReservedFlagSetExternally MR_INSERT_LABELS) else None)"

definition def_insert_labels :: "store \<Rightarrow> store" where
  "def_insert_labels s =
     (if defined s MR_STACK_TRACE \<or> defined s MR_NATIVE_GC
         \<or> defined s MR_DEBUG_GOTOS \<or> defined s MR_BYTECODE_CALLABLE
         \<or> defined s MR_DEBUG_LABEL_NAMES
      then cpp_define MR_INSERT_LABELS Empty s else s)"

text \<open>Lines 765--767 and 768--771.\<close>

definition chk_insert_entry_label_names :: "store \<Rightarrow> config_error option" where
  "chk_insert_entry_label_names s =
     (if defined s MR_INSERT_ENTRY_LABEL_NAMES
      then Some (ReservedFlagSetExternally MR_INSERT_ENTRY_LABEL_NAMES) else None)"

definition def_insert_entry_label_names :: "store \<Rightarrow> store" where
  "def_insert_entry_label_names s =
     (if defined s MR_MPROF_PROFILE_CALLS \<or> defined s MR_DEBUG_GOTOS
         \<or> defined s MR_DEBUG_AGC_SCHEDULING \<or> defined s MR_DEBUG_LABEL_NAMES
      then cpp_define MR_INSERT_ENTRY_LABEL_NAMES Empty s else s)"

text \<open>Lines 781--783 and 784--787.\<close>

definition chk_insert_internal_label_names :: "store \<Rightarrow> config_error option" where
  "chk_insert_internal_label_names s =
     (if defined s MR_INSERT_INTERNAL_LABEL_NAMES
      then Some (ReservedFlagSetExternally MR_INSERT_INTERNAL_LABEL_NAMES) else None)"

definition def_insert_internal_label_names :: "store \<Rightarrow> store" where
  "def_insert_internal_label_names s =
     (if defined s MR_DEBUG_GOTOS \<or> defined s MR_DEBUG_AGC_SCHEDULING
         \<or> defined s MR_DEBUG_LABEL_NAMES
      then cpp_define MR_INSERT_INTERNAL_LABEL_NAMES Empty s else s)"

text \<open>Lines 806--809 and 811--813.\<close>

definition def_need_entry_label_array :: "store \<Rightarrow> store" where
  "def_need_entry_label_array s =
     (if defined s MR_NATIVE_GC \<or> defined s MR_DEBUG_GOTOS
         \<or> defined s MR_INSERT_ENTRY_LABEL_NAMES
      then cpp_define MR_NEED_ENTRY_LABEL_ARRAY Empty s else s)"

definition def_need_entry_label_info :: "store \<Rightarrow> store" where
  "def_need_entry_label_info s =
     (if defined s MR_NEED_ENTRY_LABEL_ARRAY \<or> defined s MR_MPROF_PROFILE_CALLS
      then cpp_define MR_NEED_ENTRY_LABEL_INFO Empty s else s)"

text \<open>Lines 825--827 and 828--831.\<close>

definition chk_need_initialization_at_start :: "store \<Rightarrow> config_error option" where
  "chk_need_initialization_at_start s =
     (if defined s MR_NEED_INITIALIZATION_AT_START
      then Some (ReservedFlagSetExternally MR_NEED_INITIALIZATION_AT_START) else None)"

definition def_need_initialization_at_start :: "store \<Rightarrow> store" where
  "def_need_initialization_at_start s =
     (if \<not> defined s MR_STATIC_CODE_ADDRESSES \<or> defined s MR_MPROF_PROFILE_CALLS
         \<or> defined s MR_MPROF_PROFILE_TIME \<or> defined s MR_DEBUG_LABEL_NAMES
      then cpp_define MR_NEED_INITIALIZATION_AT_START Empty s else s)"

text \<open>Lines 842--844 and 845--847.\<close>

definition chk_may_need_initialization :: "store \<Rightarrow> config_error option" where
  "chk_may_need_initialization s =
     (if defined s MR_MAY_NEED_INITIALIZATION
      then Some (ReservedFlagSetExternally MR_MAY_NEED_INITIALIZATION) else None)"

definition def_may_need_initialization :: "store \<Rightarrow> store" where
  "def_may_need_initialization s =
     (if defined s MR_NEED_INITIALIZATION_AT_START \<or> defined s MR_INSERT_LABELS
      then cpp_define MR_MAY_NEED_INITIALIZATION Empty s else s)"

subsection \<open>Memory protection and signal handling (lines 849--882)\<close>

definition def_can_get_pc_at_signal :: "store \<Rightarrow> store" where
  "def_can_get_pc_at_signal s =
     (if defined s MR_HAVE_SIGINFO \<and> defined s MR_PC_ACCESS
      then cpp_define MR_CAN_GET_PC_AT_SIGNAL Empty s else s)"

definition def_check_overflow_via_mprotect :: "store \<Rightarrow> store" where
  "def_check_overflow_via_mprotect s =
     (if (defined s MR_HAVE_MPROTECT \<and> defined s MR_HAVE_SIGINFO) \<or> defined s cc_WIN32
      then cpp_define MR_CHECK_OVERFLOW_VIA_MPROTECT Empty s else s)"

definition def_protectpage :: "store \<Rightarrow> store" where
  "def_protectpage s =
     (if defined s MR_HAVE_MPROTECT \<or> defined s cc_WIN32
      then cpp_define MR_PROTECTPAGE Empty s else s)"

definition def_msvc_structured_exceptions :: "store \<Rightarrow> store" where
  "def_msvc_structured_exceptions s =
     (if defined s cc_MSC_VER then cpp_define MR_MSVC_STRUCTURED_EXCEPTIONS Empty s else s)"

subsection \<open>Win32 and Mac OS X (lines 884--916)\<close>

definition def_win32 :: "store \<Rightarrow> store" where
  "def_win32 s =
     (if defined s cc_WIN32
      then cpp_defines [MR_WIN32, MR_WIN32_GETSYSTEMINFO, MR_WIN32_VIRTUAL_ALLOC,
                    MR_WIN32_GETPROCESSTIMES, MR_BROKEN_ST_INO] s
      else s)"

definition def_mac_osx :: "store \<Rightarrow> store" where
  "def_mac_osx s =
     (if defined s cc_APPLE \<and> defined s cc_MACH
      then cpp_define MR_MAC_OSX Empty s else s)"

section \<open>The header as a whole\<close>

text \<open>
  The directive groups between the include guard's \<^verbatim>\<open>#define\<close> (line 31) and its
  \<^verbatim>\<open>#endif\<close> (line 920), in file order. This is the list of rules that a resolution
  applies.
\<close>

definition rules_command_line :: "rule list" where
  "rules_command_line =
     [Check chk_stack_trace,
      Always def_stack_trace,
      Check chk_highlevel_code_debug,
      IfValue MR_DEBUG_AGC_ALL def_debug_agc_all,
      Check chk_highlevel_code_profiling,
      Check chk_thread_safe_trace_histogram,
      Check chk_thread_safe_type_ctor_stats,
      Check chk_thread_safe_table_statistics,
      Check chk_thread_safe_stack_frame_stats,
      Check chk_minimal_model_stack_copy,
      Check chk_minimal_model_own_stacks,
      Always def_exec_trace_info_in_context,
      Always def_table_statistics]"

definition rules_implied :: "rule list" where
  "rules_implied =
     [Always def_boxed_float,
      Always def_pic,
      Always def_pic_reg,
      Always undef_pic_reg,
      Always def_lowlevel_debug,
      Always def_deep_profiling,
      Always def_check_du_eq]"

definition rules_determined :: "rule list" where
  "rules_determined =
     [Always def_conservative_gc,
      Always def_might_reclaim_hp_on_failure,
      Always def_reclaim_hp_on_failure,
      Check chk_reclaim_hp_on_failure,
      Check chk_static_code_addresses,
      Always def_static_code_addresses,
      Always def_ll_parallel_conj,
      Always def_debug_label_names,
      Check chk_insert_labels,
      Always def_insert_labels,
      Check chk_insert_entry_label_names,
      Always def_insert_entry_label_names,
      Check chk_insert_internal_label_names,
      Always def_insert_internal_label_names,
      Always def_need_entry_label_array,
      Always def_need_entry_label_info,
      Check chk_need_initialization_at_start,
      Always def_need_initialization_at_start,
      Check chk_may_need_initialization,
      Always def_may_need_initialization]"

definition rules_platform :: "rule list" where
  "rules_platform =
     [Always def_can_get_pc_at_signal,
      Always def_check_overflow_via_mprotect,
      Always def_protectpage,
      Always def_msvc_structured_exceptions,
      Always def_win32,
      Always def_mac_osx]"

definition rules :: "rule list" where
  "rules = rules_command_line @ rules_implied @ rules_determined @ rules_platform"

definition resolve :: "store \<Rightarrow> config_error + store" where
  "resolve s = run rules s"

text \<open>
  The file itself, lines 30--920: the include guard skips every group when the header
  has been processed before, and is defined on the first pass.
\<close>

definition mercury_conf_param :: "store \<Rightarrow> config_error + store" where
  "mercury_conf_param s =
     (if defined s MERCURY_CONF_PARAM_H then Inr s
      else resolve (cpp_define MERCURY_CONF_PARAM_H Empty s))"

section \<open>What a run fails with and what it derives\<close>

text \<open>
  A group either fails or has an effect on the table, so a run is determined by the
  first failure met along the list and by the composition of the effects.
\<close>

fun failure :: "rule \<Rightarrow> store \<Rightarrow> config_error option" where
  "failure (Check c) s = c s"
| "failure (Always f) s = None"
| "failure (IfValue m f) s =
     (case lookup s m of
        None \<Rightarrow> None
      | Some (Num n) \<Rightarrow> None
      | Some Empty \<Rightarrow> Some (InvalidIfExpression m)
      | Some (Str t) \<Rightarrow> Some (InvalidIfExpression m))"

fun effect :: "rule \<Rightarrow> store \<Rightarrow> store" where
  "effect (Check c) s = s"
| "effect (Always f) s = f s"
| "effect (IfValue m f) s =
     (case lookup s m of Some (Num n) \<Rightarrow> (if n \<noteq> 0 then f s else s) | _ \<Rightarrow> s)"

fun first_failure :: "rule list \<Rightarrow> store \<Rightarrow> config_error option" where
  "first_failure [] s = None"
| "first_failure (r # rs) s =
     (case failure r s of Some e \<Rightarrow> Some e | None \<Rightarrow> first_failure rs (effect r s))"

fun effects :: "rule list \<Rightarrow> store \<Rightarrow> store" where
  "effects [] s = s"
| "effects (r # rs) s = effects rs (effect r s)"

text \<open>Whether the condition of \<^verbatim>\<open>#if MR_DEBUG_AGC_ALL\<close> holds.\<close>

definition agc_all :: "store \<Rightarrow> bool" where
  "agc_all s \<longleftrightarrow> (\<exists>n. n \<noteq> 0 \<and> lookup s MR_DEBUG_AGC_ALL = Some (Num n))"

section \<open>Reasoning about a run\<close>

subsection \<open>Failure and effect\<close>

lemma apply_rule_eq:
  "apply_rule r s = (case failure r s of Some e \<Rightarrow> Inl e | None \<Rightarrow> Inr (effect r s))"
  by (cases r) (auto split: option.splits mval.splits)

lemma run_eq:
  "run rs s = (case first_failure rs s of Some e \<Rightarrow> Inl e | None \<Rightarrow> Inr (effects rs s))"
  by (induction rs arbitrary: s) (auto simp: apply_rule_eq split: option.splits)

lemma effects_append: "effects (xs @ ys) s = effects ys (effects xs s)"
  by (induction xs arbitrary: s) auto

lemma first_failure_append:
  "first_failure (xs @ ys) s =
     (case first_failure xs s of Some e \<Rightarrow> Some e | None \<Rightarrow> first_failure ys (effects xs s))"
  by (induction xs arbitrary: s) (auto split: option.splits)

lemma resolve_eq:
  "resolve I =
     (case first_failure rules I of Some e \<Rightarrow> Inl e | None \<Rightarrow> Inr (effects rules I))"
  by (simp add: resolve_def run_eq)

lemma resolve_Inl_iff: "resolve I = Inl e \<longleftrightarrow> first_failure rules I = Some e"
  by (simp add: resolve_eq split: option.splits)

lemma resolve_Inr_iff:
  "resolve I = Inr R \<longleftrightarrow> first_failure rules I = None \<and> R = effects rules I"
  by (auto simp: resolve_eq split: option.splits)

lemma first_failure_nth:
  "first_failure rs s = None \<Longrightarrow> k < length rs \<Longrightarrow>
     failure (rs ! k) (effects (take k rs) s) = None"
proof (induction rs arbitrary: s k)
  case Nil
  then show ?case by simp
next
  case (Cons r rs)
  then show ?case
    by (cases k) (auto split: option.splits)
qed

lemma first_failure_take:
  "first_failure rs s = None \<Longrightarrow> first_failure (take k rs) s = None"
proof (induction rs arbitrary: s k)
  case Nil
  then show ?case by simp
next
  case (Cons r rs)
  then show ?case
    by (cases k) (auto split: option.splits)
qed

lemma first_failure_stop:
  "k < length rs \<Longrightarrow> first_failure (take k rs) s = None \<Longrightarrow>
     failure (rs ! k) (effects (take k rs) s) = Some e \<Longrightarrow> first_failure rs s = Some e"
proof (induction rs arbitrary: s k)
  case Nil
  then show ?case by simp
next
  case (Cons r rs)
  then show ?case
    by (cases k) (auto split: option.splits)
qed

lemma defined_upd [simp]: "defined (s(m \<mapsto> v)) x \<longleftrightarrow> x = m \<or> defined s x"
  by (simp add: defined_def)

lemma defined_empty [simp]: "\<not> defined Map.empty x"
  by (simp add: defined_def)

lemma lookup_upd [simp]: "lookup (s(m \<mapsto> v)) x = (if x = m then Some v else lookup s x)"
  by (simp add: lookup_def)

lemma lookup_empty [simp]: "lookup Map.empty x = None"
  by (simp add: lookup_def)



subsection \<open>Comparing names\<close>

lemmas name_defs =
  MERCURY_CONF_PARAM_H_def MR_STACK_TRACE_def MR_EXEC_TRACE_def MR_DEEP_PROFILING_def
  MR_HIGHLEVEL_CODE_def MR_LOWLEVEL_DEBUG_def MR_DEBUG_DD_BACK_END_def MR_DEBUG_GOTOS_def
  MR_DEBUG_LABEL_NAMES_def MR_LOWLEVEL_ADDR_DEBUG_def MR_DEBUG_LVAL_REP_def MR_DEBUG_AGC_SCHEDULING_def
  MR_DEBUG_AGC_COLLECTION_def MR_DEBUG_AGC_FORWARDING_def MR_DEBUG_AGC_SAVED_HPS_def MR_DEBUG_AGC_PRINT_VARS_def
  MR_DEBUG_AGC_SMALL_HEAP_def MR_RECORD_TERM_SIZES_def MR_THREAD_SAFE_def MR_TRACE_HISTOGRAM_def
  MR_TYPE_CTOR_STATS_def MR_TABLE_STATISTICS_def MR_STACK_FRAME_STATS_def MR_USE_MINIMAL_MODEL_STACK_COPY_def
  MR_CONSERVATIVE_GC_def MR_USE_MINIMAL_MODEL_OWN_STACKS_def MR_EXEC_TRACE_INFO_IN_CONTEXT_def MR_MINIMAL_MODEL_DEBUG_def
  MR_BOXED_FLOAT_def cc_pic_def cc_PIC_def MR_PIC_def
  MR_PIC_REG_def cc_CYGWIN_def cc_WIN32_def MR_CHECK_FOR_OVERFLOW_def
  MR_DEEP_PROFILING_PORT_COUNTS_def MR_DEEP_PROFILING_PERF_TEST_def MR_DEEP_PROFILING_TIMING_def MR_DEEP_PROFILING_CALL_SEQ_def
  MR_DEEP_PROFILING_MEMORY_def MR_DISABLE_CHECK_DU_EQ_def MR_CHECK_DU_EQ_def MR_BOEHM_GC_def
  MR_MPS_GC_def MR_NATIVE_GC_def MR_MIGHT_RECLAIM_HP_ON_FAILURE_def MR_RECLAIM_HP_ON_FAILURE_def
  MR_STATIC_CODE_ADDRESSES_def MR_USE_GCC_NONLOCAL_GOTOS_def MR_USE_ASM_LABELS_def MR_LL_PARALLEL_CONJ_def
  MR_DEEP_PROFILING_LOWLEVEL_DEBUG_def MR_TABLE_DEBUG_def MR_DEBUG_RETRY_def MR_INSERT_LABELS_def
  MR_BYTECODE_CALLABLE_def MR_INSERT_ENTRY_LABEL_NAMES_def MR_MPROF_PROFILE_CALLS_def MR_INSERT_INTERNAL_LABEL_NAMES_def
  MR_NEED_ENTRY_LABEL_ARRAY_def MR_NEED_ENTRY_LABEL_INFO_def MR_NEED_INITIALIZATION_AT_START_def MR_MPROF_PROFILE_TIME_def
  MR_MAY_NEED_INITIALIZATION_def MR_HAVE_SIGINFO_def MR_PC_ACCESS_def MR_CAN_GET_PC_AT_SIGNAL_def
  MR_HAVE_MPROTECT_def MR_CHECK_OVERFLOW_VIA_MPROTECT_def MR_PROTECTPAGE_def cc_MSC_VER_def
  MR_MSVC_STRUCTURED_EXCEPTIONS_def MR_WIN32_def MR_WIN32_GETSYSTEMINFO_def MR_WIN32_VIRTUAL_ALLOC_def
  MR_WIN32_GETPROCESSTIMES_def MR_BROKEN_ST_INO_def cc_APPLE_def cc_MACH_def
  MR_MAC_OSX_def MR_DEBUG_AGC_ALL_def

lemma name_codes [simp]:
  "name_code MERCURY_CONF_PARAM_H = 286530"
  "name_code MR_STACK_TRACE = 171237"
  "name_code MR_EXEC_TRACE = 895395"
  "name_code MR_DEEP_PROFILING = 598392"
  "name_code MR_HIGHLEVEL_CODE = 636801"
  "name_code MR_LOWLEVEL_DEBUG = 429365"
  "name_code MR_DEBUG_DD_BACK_END = 194648"
  "name_code MR_DEBUG_GOTOS = 957410"
  "name_code MR_DEBUG_LABEL_NAMES = 214561"
  "name_code MR_LOWLEVEL_ADDR_DEBUG = 115855"
  "name_code MR_DEBUG_LVAL_REP = 996463"
  "name_code MR_DEBUG_AGC_SCHEDULING = 880044"
  "name_code MR_DEBUG_AGC_COLLECTION = 30194"
  "name_code MR_DEBUG_AGC_FORWARDING = 116786"
  "name_code MR_DEBUG_AGC_SAVED_HPS = 628626"
  "name_code MR_DEBUG_AGC_PRINT_VARS = 166869"
  "name_code MR_DEBUG_AGC_SMALL_HEAP = 598216"
  "name_code MR_RECORD_TERM_SIZES = 457773"
  "name_code MR_THREAD_SAFE = 566018"
  "name_code MR_TRACE_HISTOGRAM = 803246"
  "name_code MR_TYPE_CTOR_STATS = 399662"
  "name_code MR_TABLE_STATISTICS = 470169"
  "name_code MR_STACK_FRAME_STATS = 754451"
  "name_code MR_USE_MINIMAL_MODEL_STACK_COPY = 658345"
  "name_code MR_CONSERVATIVE_GC = 304430"
  "name_code MR_USE_MINIMAL_MODEL_OWN_STACKS = 468019"
  "name_code MR_EXEC_TRACE_INFO_IN_CONTEXT = 317550"
  "name_code MR_MINIMAL_MODEL_DEBUG = 765246"
  "name_code MR_BOXED_FLOAT = 677904"
  "name_code cc_pic = 18209"
  "name_code cc_PIC = 481566"
  "name_code MR_PIC = 75855"
  "name_code MR_PIC_REG = 386444"
  "name_code cc_CYGWIN = 946224"
  "name_code cc_WIN32 = 358598"
  "name_code MR_CHECK_FOR_OVERFLOW = 936735"
  "name_code MR_DEEP_PROFILING_PORT_COUNTS = 719495"
  "name_code MR_DEEP_PROFILING_PERF_TEST = 279147"
  "name_code MR_DEEP_PROFILING_TIMING = 494733"
  "name_code MR_DEEP_PROFILING_CALL_SEQ = 53778"
  "name_code MR_DEEP_PROFILING_MEMORY = 403112"
  "name_code MR_DISABLE_CHECK_DU_EQ = 549632"
  "name_code MR_CHECK_DU_EQ = 670749"
  "name_code MR_BOEHM_GC = 437122"
  "name_code MR_MPS_GC = 937178"
  "name_code MR_NATIVE_GC = 558720"
  "name_code MR_MIGHT_RECLAIM_HP_ON_FAILURE = 434447"
  "name_code MR_RECLAIM_HP_ON_FAILURE = 537348"
  "name_code MR_STATIC_CODE_ADDRESSES = 764732"
  "name_code MR_USE_GCC_NONLOCAL_GOTOS = 926625"
  "name_code MR_USE_ASM_LABELS = 216538"
  "name_code MR_LL_PARALLEL_CONJ = 97101"
  "name_code MR_DEEP_PROFILING_LOWLEVEL_DEBUG = 914350"
  "name_code MR_TABLE_DEBUG = 370520"
  "name_code MR_DEBUG_RETRY = 818300"
  "name_code MR_INSERT_LABELS = 225336"
  "name_code MR_BYTECODE_CALLABLE = 683555"
  "name_code MR_INSERT_ENTRY_LABEL_NAMES = 634299"
  "name_code MR_MPROF_PROFILE_CALLS = 396013"
  "name_code MR_INSERT_INTERNAL_LABEL_NAMES = 525873"
  "name_code MR_NEED_ENTRY_LABEL_ARRAY = 7799"
  "name_code MR_NEED_ENTRY_LABEL_INFO = 492440"
  "name_code MR_NEED_INITIALIZATION_AT_START = 616178"
  "name_code MR_MPROF_PROFILE_TIME = 139833"
  "name_code MR_MAY_NEED_INITIALIZATION = 974957"
  "name_code MR_HAVE_SIGINFO = 544605"
  "name_code MR_PC_ACCESS = 427074"
  "name_code MR_CAN_GET_PC_AT_SIGNAL = 261248"
  "name_code MR_HAVE_MPROTECT = 838718"
  "name_code MR_CHECK_OVERFLOW_VIA_MPROTECT = 976302"
  "name_code MR_PROTECTPAGE = 237416"
  "name_code cc_MSC_VER = 81027"
  "name_code MR_MSVC_STRUCTURED_EXCEPTIONS = 372932"
  "name_code MR_WIN32 = 373267"
  "name_code MR_WIN32_GETSYSTEMINFO = 277549"
  "name_code MR_WIN32_VIRTUAL_ALLOC = 903937"
  "name_code MR_WIN32_GETPROCESSTIMES = 812312"
  "name_code MR_BROKEN_ST_INO = 68837"
  "name_code cc_APPLE = 89480"
  "name_code cc_MACH = 631154"
  "name_code MR_MAC_OSX = 848437"
  "name_code MR_DEBUG_AGC_ALL = 791599"
  by (simp_all add: name_code_def name_defs)

lemma name_code_neq [simp]: "name_code x \<noteq> name_code y \<Longrightarrow> (x = y) = False"
  by auto

subsection \<open>Each directive group, macro by macro\<close>

lemmas prim_defs = defined_def cpp_define_def cpp_undef_def cpp_defines_def cpp_undefs_def

lemmas chk_defs = chk_stack_trace_def chk_highlevel_code_debug_def
  chk_highlevel_code_profiling_def chk_thread_safe_trace_histogram_def
  chk_thread_safe_type_ctor_stats_def chk_thread_safe_table_statistics_def
  chk_thread_safe_stack_frame_stats_def chk_minimal_model_stack_copy_def
  chk_minimal_model_own_stacks_def chk_reclaim_hp_on_failure_def
  chk_static_code_addresses_def chk_insert_labels_def
  chk_insert_entry_label_names_def chk_insert_internal_label_names_def
  chk_need_initialization_at_start_def chk_may_need_initialization_def

lemmas rules_defs = rules_def rules_command_line_def rules_implied_def rules_determined_def
  rules_platform_def

named_theorems at "the value of a macro after a directive group"
named_theorems dat "whether a macro is defined after a directive group"

lemma lookup_def_stack_trace [at]:
  "lookup (def_stack_trace s) x =
     (if x = MR_STACK_TRACE
      then (if defined s MR_EXEC_TRACE \<or> defined s MR_DEEP_PROFILING then
                Some Empty else lookup s x)
      else lookup s x)"
  by (auto simp: def_stack_trace_def prim_defs lookup_def)

lemma defined_def_stack_trace [dat]:
  "defined (def_stack_trace s) x =
     (if x = MR_STACK_TRACE
      then (defined s MR_EXEC_TRACE \<or> defined s MR_DEEP_PROFILING) \<or>
           defined s x
      else defined s x)"
  by (auto simp: def_stack_trace_def prim_defs)

lemma lookup_def_debug_agc_all:
  "lookup (def_debug_agc_all s) x =
     (if x \<in> set [MR_DEBUG_AGC_SCHEDULING, MR_DEBUG_AGC_COLLECTION,
             MR_DEBUG_AGC_FORWARDING, MR_DEBUG_AGC_SAVED_HPS,
             MR_DEBUG_AGC_PRINT_VARS, MR_DEBUG_AGC_SMALL_HEAP]
      then Some Empty else lookup s x)"
  by (auto simp: def_debug_agc_all_def prim_defs lookup_def)

lemma defined_def_debug_agc_all:
  "defined (def_debug_agc_all s) x =
     (if x \<in> set [MR_DEBUG_AGC_SCHEDULING, MR_DEBUG_AGC_COLLECTION,
             MR_DEBUG_AGC_FORWARDING, MR_DEBUG_AGC_SAVED_HPS,
             MR_DEBUG_AGC_PRINT_VARS, MR_DEBUG_AGC_SMALL_HEAP]
      then True else defined s x)"
  by (auto simp: def_debug_agc_all_def prim_defs)

lemma lookup_def_exec_trace_info_in_context [at]:
  "lookup (def_exec_trace_info_in_context s) x =
     (if x = MR_EXEC_TRACE_INFO_IN_CONTEXT
      then (if defined s MR_USE_MINIMAL_MODEL_OWN_STACKS then Some Empty else
                lookup s x)
      else lookup s x)"
  by (auto simp: def_exec_trace_info_in_context_def prim_defs lookup_def)

lemma defined_def_exec_trace_info_in_context [dat]:
  "defined (def_exec_trace_info_in_context s) x =
     (if x = MR_EXEC_TRACE_INFO_IN_CONTEXT
      then defined s MR_USE_MINIMAL_MODEL_OWN_STACKS \<or> defined s x
      else defined s x)"
  by (auto simp: def_exec_trace_info_in_context_def prim_defs)

lemma lookup_def_table_statistics [at]:
  "lookup (def_table_statistics s) x =
     (if x = MR_TABLE_STATISTICS
      then (if defined s MR_MINIMAL_MODEL_DEBUG then Some Empty else lookup s x)
      else lookup s x)"
  by (auto simp: def_table_statistics_def prim_defs lookup_def)

lemma defined_def_table_statistics [dat]:
  "defined (def_table_statistics s) x =
     (if x = MR_TABLE_STATISTICS
      then defined s MR_MINIMAL_MODEL_DEBUG \<or> defined s x
      else defined s x)"
  by (auto simp: def_table_statistics_def prim_defs)

lemma lookup_def_boxed_float [at]:
  "lookup (def_boxed_float s) x =
     (if x = MR_BOXED_FLOAT
      then (if defined s MR_HIGHLEVEL_CODE then Some (Num 1) else lookup s x)
      else lookup s x)"
  by (auto simp: def_boxed_float_def prim_defs lookup_def)

lemma defined_def_boxed_float [dat]:
  "defined (def_boxed_float s) x =
     (if x = MR_BOXED_FLOAT
      then defined s MR_HIGHLEVEL_CODE \<or> defined s x
      else defined s x)"
  by (auto simp: def_boxed_float_def prim_defs)

lemma lookup_def_pic [at]:
  "lookup (def_pic s) x =
     (if x = MR_PIC
      then (if defined s cc_pic \<or> defined s cc_PIC then Some (Num 1) else
                lookup s x)
      else lookup s x)"
  by (auto simp: def_pic_def prim_defs lookup_def)

lemma defined_def_pic [dat]:
  "defined (def_pic s) x =
     (if x = MR_PIC
      then (defined s cc_pic \<or> defined s cc_PIC) \<or> defined s x
      else defined s x)"
  by (auto simp: def_pic_def prim_defs)

lemma lookup_def_pic_reg [at]:
  "lookup (def_pic_reg s) x =
     (if x = MR_PIC_REG
      then (if defined s MR_PIC then Some (Num 1) else lookup s x)
      else lookup s x)"
  by (auto simp: def_pic_reg_def prim_defs lookup_def)

lemma defined_def_pic_reg [dat]:
  "defined (def_pic_reg s) x =
     (if x = MR_PIC_REG
      then defined s MR_PIC \<or> defined s x
      else defined s x)"
  by (auto simp: def_pic_reg_def prim_defs)

lemma lookup_def_lowlevel_debug [at]:
  "lookup (def_lowlevel_debug s) x =
     (if x \<in> set [MR_DEBUG_GOTOS, MR_CHECK_FOR_OVERFLOW]
      then (if defined s MR_LOWLEVEL_DEBUG then Some Empty else lookup s x)
      else lookup s x)"
  by (auto simp: def_lowlevel_debug_def prim_defs lookup_def)

lemma defined_def_lowlevel_debug [dat]:
  "defined (def_lowlevel_debug s) x =
     (if x \<in> set [MR_DEBUG_GOTOS, MR_CHECK_FOR_OVERFLOW]
      then defined s MR_LOWLEVEL_DEBUG \<or> defined s x
      else defined s x)"
  by (auto simp: def_lowlevel_debug_def prim_defs)

lemma lookup_def_check_du_eq [at]:
  "lookup (def_check_du_eq s) x =
     (if x = MR_CHECK_DU_EQ
      then (if \<not> defined s MR_DISABLE_CHECK_DU_EQ then Some Empty else lookup s x)
      else lookup s x)"
  by (auto simp: def_check_du_eq_def prim_defs lookup_def)

lemma defined_def_check_du_eq [dat]:
  "defined (def_check_du_eq s) x =
     (if x = MR_CHECK_DU_EQ
      then \<not> defined s MR_DISABLE_CHECK_DU_EQ \<or> defined s x
      else defined s x)"
  by (auto simp: def_check_du_eq_def prim_defs)

lemma lookup_def_might_reclaim_hp_on_failure [at]:
  "lookup (def_might_reclaim_hp_on_failure s) x =
     (if x = MR_MIGHT_RECLAIM_HP_ON_FAILURE
      then (if \<not> defined s MR_CONSERVATIVE_GC \<and>
                \<not> defined s MR_NATIVE_GC then Some Empty else lookup s x)
      else lookup s x)"
  by (auto simp: def_might_reclaim_hp_on_failure_def prim_defs lookup_def)

lemma defined_def_might_reclaim_hp_on_failure [dat]:
  "defined (def_might_reclaim_hp_on_failure s) x =
     (if x = MR_MIGHT_RECLAIM_HP_ON_FAILURE
      then \<not> defined s MR_CONSERVATIVE_GC \<and> \<not> defined s MR_NATIVE_GC
           \<or> defined s x
      else defined s x)"
  by (auto simp: def_might_reclaim_hp_on_failure_def prim_defs)

lemma lookup_def_reclaim_hp_on_failure [at]:
  "lookup (def_reclaim_hp_on_failure s) x =
     (if x = MR_RECLAIM_HP_ON_FAILURE
      then (if defined s MR_MIGHT_RECLAIM_HP_ON_FAILURE then Some Empty else lookup s x)
      else lookup s x)"
  by (auto simp: def_reclaim_hp_on_failure_def prim_defs lookup_def)

lemma defined_def_reclaim_hp_on_failure [dat]:
  "defined (def_reclaim_hp_on_failure s) x =
     (if x = MR_RECLAIM_HP_ON_FAILURE
      then defined s MR_MIGHT_RECLAIM_HP_ON_FAILURE \<or> defined s x
      else defined s x)"
  by (auto simp: def_reclaim_hp_on_failure_def prim_defs)

lemma lookup_def_static_code_addresses [at]:
  "lookup (def_static_code_addresses s) x =
     (if x = MR_STATIC_CODE_ADDRESSES
      then (if \<not> defined s MR_USE_GCC_NONLOCAL_GOTOS \<or>
                defined s MR_USE_ASM_LABELS then Some Empty else lookup s x)
      else lookup s x)"
  by (auto simp: def_static_code_addresses_def prim_defs lookup_def)

lemma defined_def_static_code_addresses [dat]:
  "defined (def_static_code_addresses s) x =
     (if x = MR_STATIC_CODE_ADDRESSES
      then (\<not> defined s MR_USE_GCC_NONLOCAL_GOTOS \<or>
           defined s MR_USE_ASM_LABELS) \<or> defined s x
      else defined s x)"
  by (auto simp: def_static_code_addresses_def prim_defs)

lemma lookup_def_ll_parallel_conj [at]:
  "lookup (def_ll_parallel_conj s) x =
     (if x = MR_LL_PARALLEL_CONJ
      then (if \<not> defined s MR_HIGHLEVEL_CODE \<and> defined s MR_THREAD_SAFE
                then Some Empty else lookup s x)
      else lookup s x)"
  by (auto simp: def_ll_parallel_conj_def prim_defs lookup_def)

lemma defined_def_ll_parallel_conj [dat]:
  "defined (def_ll_parallel_conj s) x =
     (if x = MR_LL_PARALLEL_CONJ
      then \<not> defined s MR_HIGHLEVEL_CODE \<and> defined s MR_THREAD_SAFE \<or>
           defined s x
      else defined s x)"
  by (auto simp: def_ll_parallel_conj_def prim_defs)

lemma lookup_def_debug_label_names [at]:
  "lookup (def_debug_label_names s) x =
     (if x = MR_DEBUG_LABEL_NAMES
      then (if defined s MR_DEEP_PROFILING_LOWLEVEL_DEBUG \<or>
                defined s MR_TABLE_DEBUG \<or> defined s MR_DEBUG_RETRY then
                Some Empty else lookup s x)
      else lookup s x)"
  by (auto simp: def_debug_label_names_def prim_defs lookup_def)

lemma defined_def_debug_label_names [dat]:
  "defined (def_debug_label_names s) x =
     (if x = MR_DEBUG_LABEL_NAMES
      then (defined s MR_DEEP_PROFILING_LOWLEVEL_DEBUG \<or>
           defined s MR_TABLE_DEBUG \<or> defined s MR_DEBUG_RETRY) \<or>
           defined s x
      else defined s x)"
  by (auto simp: def_debug_label_names_def prim_defs)

lemma lookup_def_insert_labels [at]:
  "lookup (def_insert_labels s) x =
     (if x = MR_INSERT_LABELS
      then (if defined s MR_STACK_TRACE \<or> defined s MR_NATIVE_GC \<or>
                defined s MR_DEBUG_GOTOS \<or> defined s MR_BYTECODE_CALLABLE \<or>
                defined s MR_DEBUG_LABEL_NAMES then Some Empty else lookup s x)
      else lookup s x)"
  by (auto simp: def_insert_labels_def prim_defs lookup_def)

lemma defined_def_insert_labels [dat]:
  "defined (def_insert_labels s) x =
     (if x = MR_INSERT_LABELS
      then (defined s MR_STACK_TRACE \<or> defined s MR_NATIVE_GC \<or>
           defined s MR_DEBUG_GOTOS \<or> defined s MR_BYTECODE_CALLABLE \<or>
           defined s MR_DEBUG_LABEL_NAMES) \<or> defined s x
      else defined s x)"
  by (auto simp: def_insert_labels_def prim_defs)

lemma lookup_def_insert_entry_label_names [at]:
  "lookup (def_insert_entry_label_names s) x =
     (if x = MR_INSERT_ENTRY_LABEL_NAMES
      then (if defined s MR_MPROF_PROFILE_CALLS \<or> defined s MR_DEBUG_GOTOS \<or>
                defined s MR_DEBUG_AGC_SCHEDULING \<or>
                defined s MR_DEBUG_LABEL_NAMES then Some Empty else lookup s x)
      else lookup s x)"
  by (auto simp: def_insert_entry_label_names_def prim_defs lookup_def)

lemma defined_def_insert_entry_label_names [dat]:
  "defined (def_insert_entry_label_names s) x =
     (if x = MR_INSERT_ENTRY_LABEL_NAMES
      then (defined s MR_MPROF_PROFILE_CALLS \<or> defined s MR_DEBUG_GOTOS \<or>
           defined s MR_DEBUG_AGC_SCHEDULING \<or> defined s MR_DEBUG_LABEL_NAMES)
           \<or> defined s x
      else defined s x)"
  by (auto simp: def_insert_entry_label_names_def prim_defs)

lemma lookup_def_insert_internal_label_names [at]:
  "lookup (def_insert_internal_label_names s) x =
     (if x = MR_INSERT_INTERNAL_LABEL_NAMES
      then (if defined s MR_DEBUG_GOTOS \<or> defined s MR_DEBUG_AGC_SCHEDULING
                \<or> defined s MR_DEBUG_LABEL_NAMES then Some Empty else lookup s x)
      else lookup s x)"
  by (auto simp: def_insert_internal_label_names_def prim_defs lookup_def)

lemma defined_def_insert_internal_label_names [dat]:
  "defined (def_insert_internal_label_names s) x =
     (if x = MR_INSERT_INTERNAL_LABEL_NAMES
      then (defined s MR_DEBUG_GOTOS \<or> defined s MR_DEBUG_AGC_SCHEDULING \<or>
           defined s MR_DEBUG_LABEL_NAMES) \<or> defined s x
      else defined s x)"
  by (auto simp: def_insert_internal_label_names_def prim_defs)

lemma lookup_def_need_entry_label_array [at]:
  "lookup (def_need_entry_label_array s) x =
     (if x = MR_NEED_ENTRY_LABEL_ARRAY
      then (if defined s MR_NATIVE_GC \<or> defined s MR_DEBUG_GOTOS \<or>
                defined s MR_INSERT_ENTRY_LABEL_NAMES then Some Empty else lookup s x)
      else lookup s x)"
  by (auto simp: def_need_entry_label_array_def prim_defs lookup_def)

lemma defined_def_need_entry_label_array [dat]:
  "defined (def_need_entry_label_array s) x =
     (if x = MR_NEED_ENTRY_LABEL_ARRAY
      then (defined s MR_NATIVE_GC \<or> defined s MR_DEBUG_GOTOS \<or>
           defined s MR_INSERT_ENTRY_LABEL_NAMES) \<or> defined s x
      else defined s x)"
  by (auto simp: def_need_entry_label_array_def prim_defs)

lemma lookup_def_need_entry_label_info [at]:
  "lookup (def_need_entry_label_info s) x =
     (if x = MR_NEED_ENTRY_LABEL_INFO
      then (if defined s MR_NEED_ENTRY_LABEL_ARRAY \<or>
                defined s MR_MPROF_PROFILE_CALLS then Some Empty else lookup s x)
      else lookup s x)"
  by (auto simp: def_need_entry_label_info_def prim_defs lookup_def)

lemma defined_def_need_entry_label_info [dat]:
  "defined (def_need_entry_label_info s) x =
     (if x = MR_NEED_ENTRY_LABEL_INFO
      then (defined s MR_NEED_ENTRY_LABEL_ARRAY \<or>
           defined s MR_MPROF_PROFILE_CALLS) \<or> defined s x
      else defined s x)"
  by (auto simp: def_need_entry_label_info_def prim_defs)

lemma lookup_def_need_initialization_at_start [at]:
  "lookup (def_need_initialization_at_start s) x =
     (if x = MR_NEED_INITIALIZATION_AT_START
      then (if \<not> defined s MR_STATIC_CODE_ADDRESSES \<or>
                defined s MR_MPROF_PROFILE_CALLS \<or>
                defined s MR_MPROF_PROFILE_TIME \<or> defined s MR_DEBUG_LABEL_NAMES
                then Some Empty else lookup s x)
      else lookup s x)"
  by (auto simp: def_need_initialization_at_start_def prim_defs lookup_def)

lemma defined_def_need_initialization_at_start [dat]:
  "defined (def_need_initialization_at_start s) x =
     (if x = MR_NEED_INITIALIZATION_AT_START
      then (\<not> defined s MR_STATIC_CODE_ADDRESSES \<or>
           defined s MR_MPROF_PROFILE_CALLS \<or> defined s MR_MPROF_PROFILE_TIME
           \<or> defined s MR_DEBUG_LABEL_NAMES) \<or> defined s x
      else defined s x)"
  by (auto simp: def_need_initialization_at_start_def prim_defs)

lemma lookup_def_may_need_initialization [at]:
  "lookup (def_may_need_initialization s) x =
     (if x = MR_MAY_NEED_INITIALIZATION
      then (if defined s MR_NEED_INITIALIZATION_AT_START \<or>
                defined s MR_INSERT_LABELS then Some Empty else lookup s x)
      else lookup s x)"
  by (auto simp: def_may_need_initialization_def prim_defs lookup_def)

lemma defined_def_may_need_initialization [dat]:
  "defined (def_may_need_initialization s) x =
     (if x = MR_MAY_NEED_INITIALIZATION
      then (defined s MR_NEED_INITIALIZATION_AT_START \<or>
           defined s MR_INSERT_LABELS) \<or> defined s x
      else defined s x)"
  by (auto simp: def_may_need_initialization_def prim_defs)

lemma lookup_def_can_get_pc_at_signal [at]:
  "lookup (def_can_get_pc_at_signal s) x =
     (if x = MR_CAN_GET_PC_AT_SIGNAL
      then (if defined s MR_HAVE_SIGINFO \<and> defined s MR_PC_ACCESS then
                Some Empty else lookup s x)
      else lookup s x)"
  by (auto simp: def_can_get_pc_at_signal_def prim_defs lookup_def)

lemma defined_def_can_get_pc_at_signal [dat]:
  "defined (def_can_get_pc_at_signal s) x =
     (if x = MR_CAN_GET_PC_AT_SIGNAL
      then defined s MR_HAVE_SIGINFO \<and> defined s MR_PC_ACCESS \<or> defined s x
      else defined s x)"
  by (auto simp: def_can_get_pc_at_signal_def prim_defs)

lemma lookup_def_check_overflow_via_mprotect [at]:
  "lookup (def_check_overflow_via_mprotect s) x =
     (if x = MR_CHECK_OVERFLOW_VIA_MPROTECT
      then (if defined s MR_HAVE_MPROTECT \<and> defined s MR_HAVE_SIGINFO \<or>
                defined s cc_WIN32 then Some Empty else lookup s x)
      else lookup s x)"
  by (auto simp: def_check_overflow_via_mprotect_def prim_defs lookup_def)

lemma defined_def_check_overflow_via_mprotect [dat]:
  "defined (def_check_overflow_via_mprotect s) x =
     (if x = MR_CHECK_OVERFLOW_VIA_MPROTECT
      then (defined s MR_HAVE_MPROTECT \<and> defined s MR_HAVE_SIGINFO \<or>
           defined s cc_WIN32) \<or> defined s x
      else defined s x)"
  by (auto simp: def_check_overflow_via_mprotect_def prim_defs)

lemma lookup_def_protectpage [at]:
  "lookup (def_protectpage s) x =
     (if x = MR_PROTECTPAGE
      then (if defined s MR_HAVE_MPROTECT \<or> defined s cc_WIN32 then Some Empty
                else lookup s x)
      else lookup s x)"
  by (auto simp: def_protectpage_def prim_defs lookup_def)

lemma defined_def_protectpage [dat]:
  "defined (def_protectpage s) x =
     (if x = MR_PROTECTPAGE
      then (defined s MR_HAVE_MPROTECT \<or> defined s cc_WIN32) \<or> defined s x
      else defined s x)"
  by (auto simp: def_protectpage_def prim_defs)

lemma lookup_def_msvc_structured_exceptions [at]:
  "lookup (def_msvc_structured_exceptions s) x =
     (if x = MR_MSVC_STRUCTURED_EXCEPTIONS
      then (if defined s cc_MSC_VER then Some Empty else lookup s x)
      else lookup s x)"
  by (auto simp: def_msvc_structured_exceptions_def prim_defs lookup_def)

lemma defined_def_msvc_structured_exceptions [dat]:
  "defined (def_msvc_structured_exceptions s) x =
     (if x = MR_MSVC_STRUCTURED_EXCEPTIONS
      then defined s cc_MSC_VER \<or> defined s x
      else defined s x)"
  by (auto simp: def_msvc_structured_exceptions_def prim_defs)

lemma lookup_def_win32 [at]:
  "lookup (def_win32 s) x =
     (if x \<in> set [MR_WIN32, MR_WIN32_GETSYSTEMINFO, MR_WIN32_VIRTUAL_ALLOC,
             MR_WIN32_GETPROCESSTIMES, MR_BROKEN_ST_INO]
      then (if defined s cc_WIN32 then Some Empty else lookup s x)
      else lookup s x)"
  by (auto simp: def_win32_def prim_defs lookup_def)

lemma defined_def_win32 [dat]:
  "defined (def_win32 s) x =
     (if x \<in> set [MR_WIN32, MR_WIN32_GETSYSTEMINFO, MR_WIN32_VIRTUAL_ALLOC,
             MR_WIN32_GETPROCESSTIMES, MR_BROKEN_ST_INO]
      then defined s cc_WIN32 \<or> defined s x
      else defined s x)"
  by (auto simp: def_win32_def prim_defs)

lemma lookup_def_mac_osx [at]:
  "lookup (def_mac_osx s) x =
     (if x = MR_MAC_OSX
      then (if defined s cc_APPLE \<and> defined s cc_MACH then Some Empty else
                lookup s x)
      else lookup s x)"
  by (auto simp: def_mac_osx_def prim_defs lookup_def)

lemma defined_def_mac_osx [dat]:
  "defined (def_mac_osx s) x =
     (if x = MR_MAC_OSX
      then defined s cc_APPLE \<and> defined s cc_MACH \<or> defined s x
      else defined s x)"
  by (auto simp: def_mac_osx_def prim_defs)

lemma lookup_undef_pic_reg [at]:
  "lookup (undef_pic_reg s) x =
     (if x = MR_PIC_REG
      then (if defined s cc_CYGWIN \<or> defined s cc_WIN32 then None else lookup s x)
      else lookup s x)"
  by (auto simp: undef_pic_reg_def prim_defs lookup_def)

lemma defined_undef_pic_reg [dat]:
  "defined (undef_pic_reg s) x =
     (if x = MR_PIC_REG
      then \<not> (defined s cc_CYGWIN \<or> defined s cc_WIN32) \<and> defined s x
      else defined s x)"
  by (auto simp: undef_pic_reg_def prim_defs)

lemma lookup_def_deep_profiling [at]:
  "lookup (def_deep_profiling s) x =
     (if x = MR_DEEP_PROFILING_PORT_COUNTS
      then (if defined s MR_DEEP_PROFILING then Some Empty else None)
      else if x \<in> set [MR_DEEP_PROFILING_TIMING, MR_DEEP_PROFILING_CALL_SEQ,
                        MR_DEEP_PROFILING_MEMORY]
      then (if defined s MR_DEEP_PROFILING
            then (if defined s MR_DEEP_PROFILING_PERF_TEST then lookup s x else Some Empty)
            else None)
      else lookup s x)"
  by (auto simp: def_deep_profiling_def prim_defs lookup_def Let_def)

lemma defined_def_deep_profiling [dat]:
  "defined (def_deep_profiling s) x =
     (if x = MR_DEEP_PROFILING_PORT_COUNTS then defined s MR_DEEP_PROFILING
      else if x \<in> set [MR_DEEP_PROFILING_TIMING, MR_DEEP_PROFILING_CALL_SEQ,
                        MR_DEEP_PROFILING_MEMORY]
      then defined s MR_DEEP_PROFILING
           \<and> (defined s MR_DEEP_PROFILING_PERF_TEST \<longrightarrow> defined s x)
      else defined s x)"
  by (auto simp: def_deep_profiling_def prim_defs Let_def)

lemma lookup_def_conservative_gc [at]:
  "lookup (def_conservative_gc s) x =
     (if x = MR_CONSERVATIVE_GC
      then (if (defined s MR_BOEHM_GC \<or> defined s MR_MPS_GC)
               \<and> \<not> defined s MR_CONSERVATIVE_GC
            then Some Empty else lookup s x)
      else if x = MR_BOEHM_GC
      then (if \<not> defined s MR_BOEHM_GC \<and> \<not> defined s MR_MPS_GC
               \<and> defined s MR_CONSERVATIVE_GC
            then Some Empty else lookup s x)
      else lookup s x)"
  by (auto simp: def_conservative_gc_def prim_defs lookup_def)

lemma defined_def_conservative_gc [dat]:
  "defined (def_conservative_gc s) x =
     (if x = MR_CONSERVATIVE_GC
      then defined s MR_BOEHM_GC \<or> defined s MR_MPS_GC \<or> defined s x
      else if x = MR_BOEHM_GC
      then \<not> defined s MR_MPS_GC \<and> defined s MR_CONSERVATIVE_GC \<or> defined s x
      else defined s x)"
  by (auto simp: def_conservative_gc_def prim_defs)

lemma lookup_effect_debug_agc_all [at]:
  "lookup (effect (IfValue MR_DEBUG_AGC_ALL def_debug_agc_all) s) x =
     (if x \<in> set [MR_DEBUG_AGC_SCHEDULING, MR_DEBUG_AGC_COLLECTION,
                   MR_DEBUG_AGC_FORWARDING, MR_DEBUG_AGC_SAVED_HPS,
                   MR_DEBUG_AGC_PRINT_VARS, MR_DEBUG_AGC_SMALL_HEAP]
      then (if agc_all s then Some Empty else lookup s x)
      else lookup s x)"
  by (auto simp: def_debug_agc_all_def prim_defs agc_all_def lookup_def
           split: option.splits mval.splits)

lemma defined_effect_debug_agc_all [dat]:
  "defined (effect (IfValue MR_DEBUG_AGC_ALL def_debug_agc_all) s) x =
     (if x \<in> set [MR_DEBUG_AGC_SCHEDULING, MR_DEBUG_AGC_COLLECTION,
                   MR_DEBUG_AGC_FORWARDING, MR_DEBUG_AGC_SAVED_HPS,
                   MR_DEBUG_AGC_PRINT_VARS, MR_DEBUG_AGC_SMALL_HEAP]
      then agc_all s \<or> defined s x
      else defined s x)"
  using lookup_effect_debug_agc_all [of s x] by (auto simp: defined_def lookup_def)

declare failure.simps(3) [simp del]
declare effect.simps(3) [simp del]

lemmas eval = rules_defs chk_defs dat at failure.simps(3)

section \<open>Properties of the resolution\<close>

text \<open>
  \<open>resolve\<close> is the resolution of the specification: the table it is given holds the
  initial assignment together with the platform facts, and its result is the resolved
  configuration or the error of the first directive group that fails.
\<close>

subsection \<open>Stack traces\<close>

text \<open>
  Claim C5. Stack-trace support is resolved true if and only if execution tracing or deep
  profiling is requested: whenever the resolution succeeds, \<^verbatim>\<open>MR_STACK_TRACE\<close> is defined
  in the result exactly when \<^verbatim>\<open>MR_EXEC_TRACE\<close> or \<^verbatim>\<open>MR_DEEP_PROFILING\<close> was
  requested; and an initial assignment that sets \<^verbatim>\<open>MR_STACK_TRACE\<close> itself always fails
  with \<open>ReservedFlagSetExternally\<close>.
\<close>

theorem stack_trace_iff:
  "(defined I MR_STACK_TRACE \<longrightarrow>
      resolve I = Inl (ReservedFlagSetExternally MR_STACK_TRACE))
   \<and> (\<forall>R. resolve I = Inr R \<longrightarrow>
         (defined R MR_STACK_TRACE \<longleftrightarrow>
            defined I MR_EXEC_TRACE \<or> defined I MR_DEEP_PROFILING))"
proof (intro conjI impI allI)
  assume "defined I MR_STACK_TRACE"
  then show "resolve I = Inl (ReservedFlagSetExternally MR_STACK_TRACE)"
    by (simp add: resolve_Inl_iff rules_defs chk_stack_trace_def)
next
  fix R
  assume "resolve I = Inr R"
  then have ok: "first_failure rules I = None" and R: "R = effects rules I"
    by (simp_all add: resolve_Inr_iff)
  from first_failure_nth [OF ok, of 0] have "\<not> defined I MR_STACK_TRACE"
    by (simp add: rules_defs chk_stack_trace_def split: if_splits)
  then show "defined R MR_STACK_TRACE \<longleftrightarrow>
      defined I MR_EXEC_TRACE \<or> defined I MR_DEEP_PROFILING"
    unfolding R by (simp add: rules_defs dat)
qed

theorem stack_trace_iff_witness:
  "defined [MR_STACK_TRACE \<mapsto> Num 1] MR_STACK_TRACE
   \<and> resolve [MR_STACK_TRACE \<mapsto> Num 1]
       = Inl (ReservedFlagSetExternally MR_STACK_TRACE)
   \<and> (\<exists>R. resolve [MR_EXEC_TRACE \<mapsto> Num 1] = Inr R \<and> defined R MR_STACK_TRACE)
   \<and> (\<exists>R. resolve Map.empty = Inr R \<and> \<not> defined R MR_STACK_TRACE)"
proof -
  have "first_failure rules [MR_EXEC_TRACE \<mapsto> Num 1] = None"
    by (simp add: eval)
  then obtain R1 where R1: "resolve [MR_EXEC_TRACE \<mapsto> Num 1] = Inr R1"
    by (simp add: resolve_Inr_iff)
  have "first_failure rules Map.empty = None"
    by (simp add: eval)
  then obtain R2 where R2: "resolve Map.empty = Inr R2"
    by (simp add: resolve_Inr_iff)
  from stack_trace_iff [of "[MR_EXEC_TRACE \<mapsto> Num 1]"] R1
  have 1: "defined R1 MR_STACK_TRACE"
    by simp
  from stack_trace_iff [of Map.empty] R2
  have 2: "\<not> defined R2 MR_STACK_TRACE"
    by simp
  from stack_trace_iff [of "[MR_STACK_TRACE \<mapsto> Num 1]"]
  have 3: "resolve [MR_STACK_TRACE \<mapsto> Num 1]
      = Inl (ReservedFlagSetExternally MR_STACK_TRACE)"
    by simp
  from 1 2 3 R1 R2 show ?thesis
    by simp
qed

subsection \<open>The register for position-independent code\<close>

text \<open>
  Claim C4. Retraction precedence for \<^verbatim>\<open>MR_PIC_REG\<close>: whenever the resolution
  succeeds, a Windows-family fact (\<^verbatim>\<open>__CYGWIN__\<close> or \<^verbatim>\<open>_WIN32\<close>) leaves
  \<^verbatim>\<open>MR_PIC_REG\<close> undefined whatever its value was, also when it was supplied in the
  initial assignment; without such a fact, position-independent code (\<^verbatim>\<open>MR_PIC\<close>,
  \<^verbatim>\<open>__pic__\<close> or \<^verbatim>\<open>__PIC__\<close>) resolves \<^verbatim>\<open>MR_PIC_REG\<close> to 1.
\<close>

theorem pic_reg_retraction:
  "resolve I = Inr R \<Longrightarrow>
     (defined I cc_CYGWIN \<or> defined I cc_WIN32 \<longrightarrow> lookup R MR_PIC_REG = None)
     \<and> (\<not> defined I cc_CYGWIN \<and> \<not> defined I cc_WIN32
          \<and> (defined I MR_PIC \<or> defined I cc_pic \<or> defined I cc_PIC)
          \<longrightarrow> lookup R MR_PIC_REG = Some (Num 1))"
  by (simp add: resolve_Inr_iff rules_defs dat at)

theorem pic_reg_retraction_witness:
  "(\<exists>R. resolve [cc_pic \<mapsto> Num 1] = Inr R \<and> lookup R MR_PIC_REG = Some (Num 1))
   \<and> (\<exists>R. resolve [cc_pic \<mapsto> Num 1, MR_PIC_REG \<mapsto> Num 1, cc_WIN32 \<mapsto> Num 1] = Inr R
          \<and> lookup R MR_PIC_REG = None)"
proof -
  have "first_failure rules [cc_pic \<mapsto> Num 1] = None"
    by (simp add: eval)
  then obtain R1 where R1: "resolve [cc_pic \<mapsto> Num 1] = Inr R1"
    by (simp add: resolve_Inr_iff)
  have "first_failure rules
          [cc_pic \<mapsto> Num 1, MR_PIC_REG \<mapsto> Num 1, cc_WIN32 \<mapsto> Num 1] = None"
    by (simp add: eval)
  then obtain R2 where R2:
    "resolve [cc_pic \<mapsto> Num 1, MR_PIC_REG \<mapsto> Num 1, cc_WIN32 \<mapsto> Num 1] = Inr R2"
    by (simp add: resolve_Inr_iff)
  from pic_reg_retraction [OF R1] have 1: "lookup R1 MR_PIC_REG = Some (Num 1)"
    by simp
  from pic_reg_retraction [OF R2] have 2: "lookup R2 MR_PIC_REG = None"
    by simp
  from 1 2 R1 R2 show ?thesis
    by simp
qed

subsection \<open>Deep profiling\<close>

text \<open>
  Claim C9. With only \<^verbatim>\<open>MR_DEEP_PROFILING\<close> requested and no platform fact, the
  resolution succeeds and defines \<^verbatim>\<open>MR_STACK_TRACE\<close> and the four measurement macros;
  with \<^verbatim>\<open>MR_DEEP_PROFILING_PERF_TEST\<close> requested as well, the port counts are still
  defined and the timing, call-sequence and memory macros are not.
\<close>

theorem deep_profiling_bundle:
  "(\<exists>R. resolve [MR_DEEP_PROFILING \<mapsto> v] = Inr R
        \<and> lookup R MR_STACK_TRACE = Some Empty
        \<and> lookup R MR_DEEP_PROFILING_PORT_COUNTS = Some Empty
        \<and> lookup R MR_DEEP_PROFILING_TIMING = Some Empty
        \<and> lookup R MR_DEEP_PROFILING_CALL_SEQ = Some Empty
        \<and> lookup R MR_DEEP_PROFILING_MEMORY = Some Empty)
   \<and> (\<exists>R. resolve [MR_DEEP_PROFILING \<mapsto> v, MR_DEEP_PROFILING_PERF_TEST \<mapsto> w] = Inr R
        \<and> lookup R MR_STACK_TRACE = Some Empty
        \<and> lookup R MR_DEEP_PROFILING_PORT_COUNTS = Some Empty
        \<and> lookup R MR_DEEP_PROFILING_TIMING = None
        \<and> lookup R MR_DEEP_PROFILING_CALL_SEQ = None
        \<and> lookup R MR_DEEP_PROFILING_MEMORY = None)"
proof -
  have 1: "first_failure rules [MR_DEEP_PROFILING \<mapsto> v] = None"
    by (simp add: eval)
  have 2: "first_failure rules
             [MR_DEEP_PROFILING \<mapsto> v, MR_DEEP_PROFILING_PERF_TEST \<mapsto> w] = None"
    by (simp add: eval)
  show ?thesis
    by (simp add: resolve_Inr_iff 1 2) (simp add: rules_defs dat at)
qed

subsection \<open>Checks see the table as it is when they are reached\<close>

text \<open>
  Claim C10. A conflict is tested on the table as it stands at the test, so a later
  implication can produce a pair that an earlier conflict forbids: with
  \<^verbatim>\<open>MR_THREAD_SAFE\<close> and \<^verbatim>\<open>MR_MINIMAL_MODEL_DEBUG\<close> requested the resolution
  succeeds and the result has both \<^verbatim>\<open>MR_THREAD_SAFE\<close> and \<^verbatim>\<open>MR_TABLE_STATISTICS\<close>,
  although requesting that pair directly fails with \<open>IncompatibleCombination\<close>.
\<close>

theorem late_implication_escapes_conflict:
  "(\<exists>R. resolve [MR_THREAD_SAFE \<mapsto> v, MR_MINIMAL_MODEL_DEBUG \<mapsto> w] = Inr R
        \<and> defined R MR_THREAD_SAFE \<and> defined R MR_TABLE_STATISTICS)
   \<and> resolve [MR_THREAD_SAFE \<mapsto> v, MR_TABLE_STATISTICS \<mapsto> w]
       = Inl (IncompatibleCombination [MR_THREAD_SAFE, MR_TABLE_STATISTICS])"
proof -
  have 1: "first_failure rules [MR_THREAD_SAFE \<mapsto> v, MR_MINIMAL_MODEL_DEBUG \<mapsto> w]
             = None"
    by (simp add: eval)
  have 2: "first_failure rules [MR_THREAD_SAFE \<mapsto> v, MR_TABLE_STATISTICS \<mapsto> w]
             = Some (IncompatibleCombination [MR_THREAD_SAFE, MR_TABLE_STATISTICS])"
    by (simp add: eval)
  show ?thesis
    by (simp add: resolve_Inr_iff resolve_Inl_iff 1 2) (simp add: rules_defs dat)
qed

end
